theory Spec2Isabelle
  imports Main "HOL-Library.Sublist" "HOL-Library.Multiset"
begin

section \<open>The chat endpoint of the support agent\<close>

text \<open>
  The repository holds the endpoint twice: \<^verbatim>\<open>src/app/api/chat/route.ts\<close>, and a second
  copy stored behind the page component in \<^verbatim>\<open>src/app/page.tsx\<close> (from its line 272 on).
  The two copies of \<^verbatim>\<open>POST\<close> agree line by line up to the \<^verbatim>\<open>catch\<close> block and differ in
  how the catch block turns a thrown value into a response; the two copies of \<^verbatim>\<open>GET\<close>
  are the same. Both handlers are embedded below, together with the two tables of the
  schema. Values thrown by the store or by the language-model client are data; the
  \<^verbatim>\<open>catch\<close> blocks are branches of the functions. Texts are sequences of bytes (UTF-8).
\<close>

subsection \<open>Thrown values\<close>

text \<open>
  The catch blocks read \<^verbatim>\<open>error?.message\<close>, \<^verbatim>\<open>error?.status\<close>, \<^verbatim>\<open>error?.code\<close>,
  \<^verbatim>\<open>error?.statusCode\<close> and the text \<^verbatim>\<open>String(error || '')\<close> of the thrown value itself.
\<close>

record err =
  emessage :: "string option"
  estatus :: "nat option"
  ecode :: "string option"
  estatusCode :: "nat option"
  estring :: string

text \<open>\<^verbatim>\<open>String.prototype.includes\<close>: the needle occurs as a contiguous block, compared
  character by character (so the comparison is case-sensitive).\<close>

fun str_includes :: "string \<Rightarrow> string \<Rightarrow> bool" where
  "str_includes [] needle = (needle = [])"
| "str_includes (c # cs) needle = (prefix needle (c # cs) \<or> str_includes cs needle)"

subsection \<open>The catch block of route.ts\<close>

text \<open>\<^verbatim>\<open>error?.message?.includes(k)\<close>: an absent message gives \<^verbatim>\<open>undefined\<close>, which is falsy.\<close>

definition message_includes :: "err \<Rightarrow> string \<Rightarrow> bool" where
  "message_includes error k =
     (case emessage error of None \<Rightarrow> False | Some m \<Rightarrow> str_includes m k)"

text \<open>Lines 108 to 119 of the route: the pair \<^verbatim>\<open>(statusCode, errorMessage)\<close> at the end of
  the if-chain. The first branch assigns the message only, so its status stays 500.\<close>

definition classify :: "err \<Rightarrow> nat \<times> string" where
  "classify error =
     (if message_includes error ''API_KEY'' then
        (500, ''Service configuration error. Please contact support.'')
      else if message_includes error ''RATE_LIMIT'' \<or> estatus error = Some 429 then
        (429, ''Too many requests. Please wait a moment and try again.'')
      else if message_includes error ''timeout'' \<or> ecode error = Some ''ETIMEDOUT'' then
        (504, ''The request timed out. Please try again.'')
      else
        (500, ''An error occurred while processing your request.''))"

subsection \<open>The catch block of the second copy\<close>

text \<open>
  \<^verbatim>\<open>toLowerCase\<close> on UTF-8 text. The letters A to Z become a to z. Two characters outside
  ASCII have a lower case inside it: the Kelvin sign (bytes E2 84 AA) becomes \<^verbatim>\<open>k\<close>, and
  the dotted capital I (bytes C4 B0) becomes \<^verbatim>\<open>i\<close> followed by a combining dot (bytes
  CC 87). Every other character outside ASCII has a lower case outside ASCII and is left
  as it is here: the catch block only asks whether ASCII keywords occur in the result,
  and bytes outside ASCII take no part in such an occurrence.
\<close>

definition lower_ascii :: "char \<Rightarrow> char" where
  "lower_ascii c =
     (case map_of (zip ''ABCDEFGHIJKLMNOPQRSTUVWXYZ'' ''abcdefghijklmnopqrstuvwxyz'') c of
        None \<Rightarrow> c
      | Some l \<Rightarrow> l)"

fun toLowerCase :: "string \<Rightarrow> string" where
  "toLowerCase [] = []"
| "toLowerCase (c # cs) =
     (if c = CHR 0xE2 \<and> take 2 cs = [CHR 0x84, CHR 0xAA] then
        CHR ''k'' # toLowerCase (drop 2 cs)
      else if c = CHR 0xC4 \<and> take 1 cs = [CHR 0xB0] then
        CHR ''i'' # CHR 0xCC # CHR 0x87 # toLowerCase (drop 1 cs)
      else lower_ascii c # toLowerCase cs)"

text \<open>\<^verbatim>\<open>String(error?.message || error || '').toLowerCase()\<close> and
  \<^verbatim>\<open>error?.status || error?.statusCode\<close>: an empty message and a status of 0 are falsy.\<close>

definition errorString :: "err \<Rightarrow> string" where
  "errorString error =
     toLowerCase (case emessage error of
                    None \<Rightarrow> estring error
                  | Some m \<Rightarrow> if m = [] then estring error else m)"

definition errorStatus :: "err \<Rightarrow> nat option" where
  "errorStatus error =
     (case estatus error of
        None \<Rightarrow> estatusCode error
      | Some s \<Rightarrow> if s = 0 then estatusCode error else Some s)"

text \<open>The seven returns of the catch block, in their order.\<close>

definition classify_full :: "err \<Rightarrow> nat \<times> string" where
  "classify_full error =
     (if str_includes (errorString error) ''quota''
         \<or> str_includes (errorString error) ''exhausted''
         \<or> str_includes (errorString error) ''billing''
         \<or> str_includes (errorString error) ''insufficient''
         \<or> errorStatus error = Some 402 then
        (503, ''Our AI service is temporarily unavailable. Please try again later.'')
      else if str_includes (errorString error) ''api_key''
         \<or> str_includes (errorString error) ''api key''
         \<or> str_includes (errorString error) ''invalid key''
         \<or> str_includes (errorString error) ''unauthorized''
         \<or> str_includes (errorString error) ''authentication''
         \<or> errorStatus error = Some 401 \<or> errorStatus error = Some 403 then
        (503, ''Service configuration error. Please contact support.'')
      else if str_includes (errorString error) ''rate''
         \<or> str_includes (errorString error) ''limit''
         \<or> str_includes (errorString error) ''too many''
         \<or> errorStatus error = Some 429 then
        (429, ''Too many requests. Please wait a moment and try again.'')
      else if str_includes (errorString error) ''timeout''
         \<or> str_includes (errorString error) ''timed out''
         \<or> str_includes (errorString error) ''etimedout''
         \<or> str_includes (errorString error) ''econnreset''
         \<or> errorStatus error = Some 504 \<or> errorStatus error = Some 408 then
        (504, ''The request took too long. Please try again.'')
      else if str_includes (errorString error) ''model''
         \<or> str_includes (errorString error) ''not found''
         \<or> str_includes (errorString error) ''unavailable''
         \<or> errorStatus error = Some 404 then
        (503, ''AI service is temporarily unavailable. Please try again later.'')
      else if str_includes (errorString error) ''safety''
         \<or> str_includes (errorString error) ''blocked''
         \<or> str_includes (errorString error) ''harmful''
         \<or> str_includes (errorString error) ''policy'' then
        (400, ''I apologize, but I cannot respond to that. Please try a different question.'')
      else
        (500, ''Sorry, something went wrong. Please try again.''))"

subsection \<open>The specification's table of error categories\<close>

text \<open>
  Section 4.5 of the specification as an ordered table: each rule names the keywords
  looked for in the lower-cased message text, the status codes, the category, and the
  status and fixed text of the answer. The first rule that applies decides; when none
  applies the category is \<open>Internal\<close>.
\<close>

datatype category =
  ServiceUnavailable | ConfigError | RateLimited | Timeout | ContentBlocked | Internal

record rule =
  phrases :: "string list"
  statuses :: "nat list"
  category :: category
  answer :: "nat \<times> string"

definition rule_applies :: "rule \<Rightarrow> err \<Rightarrow> bool" where
  "rule_applies r error =
     (list_ex (str_includes (errorString error)) (phrases r)
      \<or> list_ex (\<lambda>s. errorStatus error = Some s) (statuses r))"

definition spec_rules :: "rule list" where
  "spec_rules =
     [\<lparr>phrases = [''quota'', ''exhausted'', ''billing'', ''insufficient''], statuses = [402],
       category = ServiceUnavailable,
       answer = (503, ''Our AI service is temporarily unavailable. Please try again later.'')\<rparr>,
      \<lparr>phrases = [''api_key'', ''api key'', ''invalid key'', ''unauthorized'', ''authentication''],
       statuses = [401, 403], category = ConfigError,
       answer = (503, ''Service configuration error. Please contact support.'')\<rparr>,
      \<lparr>phrases = [''rate'', ''limit'', ''too many''], statuses = [429],
       category = RateLimited,
       answer = (429, ''Too many requests. Please wait a moment and try again.'')\<rparr>,
      \<lparr>phrases = [''timeout'', ''timed out'', ''etimedout'', ''econnreset''],
       statuses = [504, 408], category = Timeout,
       answer = (504, ''The request took too long. Please try again.'')\<rparr>,
      \<lparr>phrases = [''model'', ''not found'', ''unavailable''], statuses = [404],
       category = ServiceUnavailable,
       answer = (503, ''AI service is temporarily unavailable. Please try again later.'')\<rparr>,
      \<lparr>phrases = [''safety'', ''blocked'', ''harmful'', ''policy''], statuses = [],
       category = ContentBlocked,
       answer = (400, ''I apologize, but I cannot respond to that. Please try a different question.'')\<rparr>]"

fun first_match :: "rule list \<Rightarrow> err \<Rightarrow> category \<times> nat \<times> string" where
  "first_match [] error = (Internal, 500, ''Sorry, something went wrong. Please try again.'')"
| "first_match (r # rs) error =
     (if rule_applies r error then (category r, answer r) else first_match rs error)"

definition spec_classify :: "err \<Rightarrow> category \<times> nat \<times> string" where
  "spec_classify error = first_match spec_rules error"

subsection \<open>Identifiers of the uuid column\<close>

text \<open>
  The schema gives \<^verbatim>\<open>sessions.id\<close> and \<^verbatim>\<open>messages.session_id\<close> the type \<^verbatim>\<open>uuid\<close>. A value
  of that type is written here by its 32 hexadecimal digits in lower case. A text sent
  to the store in the place of a uuid is read as the store reads it: an optional opening
  brace, sixteen pairs of hexadecimal digits in either case, an optional hyphen after
  every second pair except the last, the closing brace if there was an opening one, and
  nothing else. A text that cannot be read so is an error of the store. Values are
  printed in groups of 8-4-4-4-12 digits.
\<close>

definition is_xdigit :: "char \<Rightarrow> bool" where
  "is_xdigit c = (c \<in> set ''0123456789abcdefABCDEF'')"

fun parse_hex_pairs :: "nat \<Rightarrow> nat \<Rightarrow> string \<Rightarrow> (string \<times> string) option" where
  "parse_hex_pairs 0 i src = Some ([], src)"
| "parse_hex_pairs (Suc n) i (a # b # rest) =
     (if is_xdigit a \<and> is_xdigit b then
        (case parse_hex_pairs n (Suc i)
                (if odd i \<and> i < 15 \<and> take 1 rest = ''-'' then drop 1 rest else rest) of
           None \<Rightarrow> None
         | Some (digits, r) \<Rightarrow> Some (lower_ascii a # lower_ascii b # digits, r))
      else None)"
| "parse_hex_pairs (Suc n) i src = None"

definition string_to_uuid :: "string \<Rightarrow> string option" where
  "string_to_uuid source =
     (let braces = (take 1 source = ''{'');
          src = (if braces then drop 1 source else source)
      in case parse_hex_pairs 16 0 src of
           None \<Rightarrow> None
         | Some (digits, r) \<Rightarrow>
             if r = (if braces then ''}'' else []) then Some digits else None)"

fun print_hex_pairs :: "nat \<Rightarrow> string \<Rightarrow> string" where
  "print_hex_pairs i (a # b # digits) =
     a # b # (if i \<in> {3, 5, 7, 9} then ''-'' else []) @ print_hex_pairs (Suc i) digits"
| "print_hex_pairs i digits = []"

definition uuid_out :: "string \<Rightarrow> string" where
  "uuid_out v = print_hex_pairs 0 v"

text \<open>The value the store draws for a new row (\<^verbatim>\<open>defaultRandom()\<close>) is given by a number:
  its last 32 hexadecimal digits.\<close>

definition is_lower_hex :: "char \<Rightarrow> bool" where
  "is_lower_hex c = (c \<in> set ''0123456789abcdef'')"

fun hex_digits :: "nat \<Rightarrow> nat \<Rightarrow> string" where
  "hex_digits 0 x = []"
| "hex_digits (Suc k) x = hex_digits k (x div 16) @ [''0123456789abcdef'' ! (x mod 16)]"

subsection \<open>The two tables\<close>

text \<open>
  The schema declares \<^verbatim>\<open>sessions(id uuid primary key default random, created_at default
  now)\<close> and \<^verbatim>\<open>messages(id, session_id references sessions.id, role, content,
  created_at default now)\<close>. A table is the list of its rows in insertion order. The
  identifier of a message row is never read by the handlers; rows are numbered in
  insertion order.
\<close>

record session_row =
  s_id :: string
  s_createdAt :: nat

record message_row =
  m_id :: nat
  sessionId :: string
  role :: string
  content :: string
  createdAt :: nat

record database =
  sessions :: "session_row list"
  messages :: "message_row list"

definition empty_db :: database where
  "empty_db = \<lparr>sessions = [], messages = []\<rparr>"

text \<open>What the store throws when a constraint of the schema is violated.\<close>

definition invalid_uuid_error :: "string \<Rightarrow> err" where
  "invalid_uuid_error s =
     \<lparr>emessage = Some (''invalid input syntax for type uuid: '' @ s), estatus = None,
      ecode = Some ''22P02'', estatusCode = None,
      estring = ''error: invalid input syntax for type uuid: '' @ s\<rparr>"

definition unique_violation :: err where
  "unique_violation =
     \<lparr>emessage = Some ''duplicate key value violates unique constraint'', estatus = None,
      ecode = Some ''23505'', estatusCode = None,
      estring = ''error: duplicate key value violates unique constraint''\<rparr>"

definition foreign_key_violation :: err where
  "foreign_key_violation =
     \<lparr>emessage = Some ''insert or update on table violates foreign key constraint'',
      estatus = None, ecode = Some ''23503'', estatusCode = None,
      estring = ''error: insert or update on table violates foreign key constraint''\<rparr>"

subsection \<open>The surroundings of one request\<close>

text \<open>
  Every call of the store in the handlers is a place where the store may be unreachable;
  the places are named after what the call does. The surroundings of a request say
  \<^item> which of these calls fail and with what thrown value,
  \<^item> which number the store draws if the request mints a session,
  \<^item> what the store's clock reads when a row is written at a place (\<^verbatim>\<open>defaultNow()\<close>;
    nothing keeps two readings apart or in order),
  \<^item> in which order the store comes across the rows of a table when a query sorts them
    (rows with equal sort keys are returned in that order, so that any order of such rows
    can come back),
  \<^item> how the language model answers a history and a current message: a reply, or a
    thrown value.
\<close>

datatype call_site =
    MintSession | FindSession | CreateSession | RemintSession
  | AppendUser | RecentMessages | AppendReply
  | HistorySession | HistoryMessages

record turn =
  turn_role :: string
  turn_parts :: "string list"

record env =
  fault :: "call_site \<Rightarrow> err option"
  random_uuid :: nat
  now :: "call_site \<Rightarrow> nat"
  scan :: "call_site \<Rightarrow> message_row list \<Rightarrow> message_row list"
  gateway :: "turn list \<Rightarrow> string \<Rightarrow> err + string"

subsection \<open>The calls of the store\<close>

text \<open>\<^verbatim>\<open>db.insert(sessions).values({})\<close> and \<^verbatim>\<open>db.insert(sessions).values({ id })\<close>: the row
  written, or the thrown value. A failed call leaves the tables as they were.\<close>

definition insert_session ::
  "env \<Rightarrow> call_site \<Rightarrow> database \<Rightarrow> string option \<Rightarrow> err + (database \<times> session_row)" where
  "insert_session E site db given =
     (case fault E site of
        Some e \<Rightarrow> Inl e
      | None \<Rightarrow>
          (case (case given of
                   None \<Rightarrow> Inr (hex_digits 32 (random_uuid E))
                 | Some g \<Rightarrow>
                     (case string_to_uuid g of
                        None \<Rightarrow> Inl (invalid_uuid_error g)
                      | Some v \<Rightarrow> Inr v)) of
             Inl e \<Rightarrow> Inl e
           | Inr v \<Rightarrow>
               if v \<in> set (map s_id (sessions db)) then Inl unique_violation
               else
                 (let row = \<lparr>s_id = v, s_createdAt = now E site\<rparr> in
                  Inr (db\<lparr>sessions := sessions db @ [row]\<rparr>, row))))"

text \<open>\<^verbatim>\<open>db.select().from(sessions).where(eq(sessions.id, i)).limit(1)\<close>.\<close>

definition select_session ::
  "env \<Rightarrow> call_site \<Rightarrow> database \<Rightarrow> string \<Rightarrow> err + session_row list" where
  "select_session E site db i =
     (case fault E site of
        Some e \<Rightarrow> Inl e
      | None \<Rightarrow>
          (case string_to_uuid i of
             None \<Rightarrow> Inl (invalid_uuid_error i)
           | Some v \<Rightarrow> Inr (take 1 (filter (\<lambda>s. s_id s = v) (sessions db)))))"

text \<open>\<^verbatim>\<open>db.insert(messages).values({ sessionId, role, content })\<close>.\<close>

definition insert_message ::
  "env \<Rightarrow> call_site \<Rightarrow> database \<Rightarrow> string \<Rightarrow> string \<Rightarrow> string \<Rightarrow> err + database" where
  "insert_message E site db sid r c =
     (case fault E site of
        Some e \<Rightarrow> Inl e
      | None \<Rightarrow>
          (case string_to_uuid sid of
             None \<Rightarrow> Inl (invalid_uuid_error sid)
           | Some v \<Rightarrow>
               if v \<notin> set (map s_id (sessions db)) then Inl foreign_key_violation
               else
                 Inr (db\<lparr>messages := messages db @
                            [\<lparr>m_id = length (messages db), sessionId = v, role = r,
                              content = c, createdAt = now E site\<rparr>]\<rparr>)))"

text \<open>The order in which a query comes across the rows: the one the surroundings give,
  provided it holds the same rows.\<close>

definition scanned :: "env \<Rightarrow> call_site \<Rightarrow> message_row list \<Rightarrow> message_row list" where
  "scanned E site rows = (if mset (scan E site rows) = mset rows then scan E site rows else rows)"

text \<open>\<^verbatim>\<open>orderBy(desc(messages.createdAt))\<close> and \<^verbatim>\<open>orderBy(messages.createdAt)\<close>.\<close>

definition order_by_desc :: "env \<Rightarrow> call_site \<Rightarrow> message_row list \<Rightarrow> message_row list" where
  "order_by_desc E site rows = sort_key (\<lambda>m. - int (createdAt m)) (scanned E site rows)"

definition order_by_asc :: "env \<Rightarrow> call_site \<Rightarrow> message_row list \<Rightarrow> message_row list" where
  "order_by_asc E site rows = sort_key createdAt (scanned E site rows)"

definition select_recent ::
  "env \<Rightarrow> call_site \<Rightarrow> database \<Rightarrow> string \<Rightarrow> nat \<Rightarrow> err + message_row list" where
  "select_recent E site db sid n =
     (case fault E site of
        Some e \<Rightarrow> Inl e
      | None \<Rightarrow>
          (case string_to_uuid sid of
             None \<Rightarrow> Inl (invalid_uuid_error sid)
           | Some v \<Rightarrow>
               Inr (take n (order_by_desc E site (filter (\<lambda>m. sessionId m = v) (messages db))))))"

definition select_history ::
  "env \<Rightarrow> call_site \<Rightarrow> database \<Rightarrow> string \<Rightarrow> err + message_row list" where
  "select_history E site db sid =
     (case fault E site of
        Some e \<Rightarrow> Inl e
      | None \<Rightarrow>
          (case string_to_uuid sid of
             None \<Rightarrow> Inl (invalid_uuid_error sid)
           | Some v \<Rightarrow>
               Inr (order_by_asc E site (filter (\<lambda>m. sessionId m = v) (messages db)))))"

subsection \<open>The handler POST\<close>

record request =
  req_message :: "string option"
  req_sessionId :: "string option"

datatype body =
    ErrorBody string
  | ReplyBody string string
  | MessagesBody "message_row list"

record response =
  status :: nat
  body :: body


text \<open>What a request leaves behind: the response, the tables, and the calls of the
  language model it made, each with the history and the current message passed.\<close>

record post_result =
  response :: response
  store :: database
  gateway_calls :: "(turn list \<times> string) list"

text \<open>Lines 39 to 55: the session the message is attached to, as the text held in
  \<^verbatim>\<open>currentSessionId\<close>. Only the insert with the supplied identifier is inside the inner
  \<^verbatim>\<open>try\<close>.\<close>

definition resolve_session :: "env \<Rightarrow> database \<Rightarrow> string option \<Rightarrow> err + (database \<times> string)" where
  "resolve_session E db given =
     (if given = None \<or> given = Some [] then
        (case insert_session E MintSession db None of
           Inl e \<Rightarrow> Inl e
         | Inr (db', newSession) \<Rightarrow> Inr (db', uuid_out (s_id newSession)))
      else
        (let currentSessionId = (case given of Some i \<Rightarrow> i | None \<Rightarrow> []) in
         case select_session E FindSession db currentSessionId of
           Inl e \<Rightarrow> Inl e
         | Inr existingSession \<Rightarrow>
             if length existingSession = 0 then
               (case insert_session E CreateSession db (Some currentSessionId) of
                  Inr (db', created) \<Rightarrow> Inr (db', currentSessionId)
                | Inl e \<Rightarrow>
                    (case insert_session E RemintSession db None of
                       Inl e' \<Rightarrow> Inl e'
                     | Inr (db', newSession) \<Rightarrow> Inr (db', uuid_out (s_id newSession))))
             else Inr (db, currentSessionId)))"

text \<open>Lines 69 to 76: the history handed to \<^verbatim>\<open>startChat\<close>.\<close>

definition build_history :: "message_row list \<Rightarrow> string \<Rightarrow> turn list" where
  "build_history previousMessages message =
     (let historyMessages =
        (if length previousMessages > 0 \<and> content (previousMessages ! 0) = message
         then drop 1 previousMessages
         else previousMessages)
      in map (\<lambda>msg. \<lparr>turn_role = (if role msg = ''user'' then ''user'' else ''model''),
                      turn_parts = [content msg]\<rparr>)
             (rev historyMessages))"

text \<open>The answer of a catch block: the status and text it settles on, as the response.\<close>

definition caught ::
  "(err \<Rightarrow> nat \<times> string) \<Rightarrow> err \<Rightarrow> database \<Rightarrow> (turn list \<times> string) list \<Rightarrow> post_result" where
  "caught catch_block error db calls =
     (case catch_block error of
        (statusCode, errorMessage) \<Rightarrow>
          \<lparr>response = \<lparr>status = statusCode, body = ErrorBody errorMessage\<rparr>,
           store = db, gateway_calls = calls\<rparr>)"

text \<open>Lines 31 to 103 of the route, which are lines 289 to 361 of the second copy: the
  body of \<^verbatim>\<open>POST\<close>. The first argument is the catch block that follows it.\<close>

definition send_message ::
  "(err \<Rightarrow> nat \<times> string) \<Rightarrow> env \<Rightarrow> database \<Rightarrow> request \<Rightarrow> post_result" where
  "send_message catch_block E db req =
     (case req_message req of
        None \<Rightarrow>
          \<lparr>response = \<lparr>status = 400, body = ErrorBody ''Message is required''\<rparr>,
           store = db, gateway_calls = []\<rparr>
      | Some message \<Rightarrow>
          if message = [] then
            \<lparr>response = \<lparr>status = 400, body = ErrorBody ''Message is required''\<rparr>,
             store = db, gateway_calls = []\<rparr>
          else
            (case resolve_session E db (req_sessionId req) of
               Inl e \<Rightarrow> caught catch_block e db []
             | Inr (db1, currentSessionId) \<Rightarrow>
                 (case insert_message E AppendUser db1 currentSessionId ''user'' message of
                    Inl e \<Rightarrow> caught catch_block e db1 []
                  | Inr db2 \<Rightarrow>
                      (case select_recent E RecentMessages db2 currentSessionId 7 of
                         Inl e \<Rightarrow> caught catch_block e db2 []
                       | Inr previousMessages \<Rightarrow>
                           (let history = build_history previousMessages message in
                            case gateway E history message of
                              Inl e \<Rightarrow> caught catch_block e db2 [(history, message)]
                            | Inr responseText \<Rightarrow>
                                (case insert_message E AppendReply db2 currentSessionId
                                        ''assistant'' responseText of
                                   Inl e \<Rightarrow> caught catch_block e db2 [(history, message)]
                                 | Inr db3 \<Rightarrow>
                                     \<lparr>response =
                                        \<lparr>status = 200,
                                         body = ReplyBody responseText currentSessionId\<rparr>,
                                      store = db3,
                                      gateway_calls = [(history, message)]\<rparr>))))))"

text \<open>\<^verbatim>\<open>POST\<close> of \<^verbatim>\<open>src/app/api/chat/route.ts\<close>, and \<^verbatim>\<open>POST\<close> of the second copy.\<close>

definition POST :: "env \<Rightarrow> database \<Rightarrow> request \<Rightarrow> post_result" where
  "POST E db req = send_message classify E db req"

definition POST_full :: "env \<Rightarrow> database \<Rightarrow> request \<Rightarrow> post_result" where
  "POST_full E db req = send_message classify_full E db req"

subsection \<open>The handler GET\<close>

text \<open>The argument is what \<^verbatim>\<open>searchParams.get('sessionId')\<close> returns: nothing, or a text.
  The two copies of the handler are the same.\<close>

definition GET :: "env \<Rightarrow> database \<Rightarrow> string option \<Rightarrow> response" where
  "GET E db given =
     (if given = None \<or> given = Some [] then
        \<lparr>status = 400, body = ErrorBody ''Session ID is required''\<rparr>
      else
        (let sid = (case given of Some i \<Rightarrow> i | None \<Rightarrow> []) in
         case select_session E HistorySession db sid of
           Inl e \<Rightarrow> \<lparr>status = 500, body = ErrorBody ''Failed to fetch chat history.''\<rparr>
         | Inr existingSession \<Rightarrow>
             if length existingSession = 0 then \<lparr>status = 200, body = MessagesBody []\<rparr>
             else
               (case select_history E HistoryMessages db sid of
                  Inl e \<Rightarrow> \<lparr>status = 500, body = ErrorBody ''Failed to fetch chat history.''\<rparr>
                | Inr history \<Rightarrow> \<lparr>status = 200, body = MessagesBody history\<rparr>)))"

subsection \<open>The specification's wording of the context window\<close>




subsection \<open>Surroundings and stores for the worked examples\<close>

text \<open>No call of the store fails in any of them, and rows are come across in insertion
  order. In the first the language model replies. In the second it throws what the
  provider sends when its quota is used up. In the third the store's clock reads 8
  whenever a row is written.\<close>

definition quiet_env :: env where
  "quiet_env =
     \<lparr>fault = (\<lambda>site. None), random_uuid = 7, now = (\<lambda>site. 100),
      scan = (\<lambda>site rows. rows), gateway = (\<lambda>history message. Inr ''Hello'')\<rparr>"

definition quota_error :: err where
  "quota_error =
     \<lparr>emessage = Some ''[429 Too Many Requests] Resource has been exhausted (e.g. check quota).'',
      estatus = Some 429, ecode = None, estatusCode = None,
      estring = ''Error: [429 Too Many Requests] Resource has been exhausted (e.g. check quota).''\<rparr>"

definition busy_env :: env where
  "busy_env =
     \<lparr>fault = (\<lambda>site. None), random_uuid = 7, now = (\<lambda>site. 100),
      scan = (\<lambda>site rows. rows), gateway = (\<lambda>history message. Inl quota_error)\<rparr>"


text \<open>A store holding one session with eight rows, stamped 1 to 8, and the window a
  further message of that session is sent with when its row is the newest.\<close>

definition seeded_db :: database where
  "seeded_db =
     \<lparr>sessions = [\<lparr>s_id = ''00000000000040008000000000000002'', s_createdAt = 0\<rparr>],
      messages =
        [\<lparr>m_id = 0, sessionId = ''00000000000040008000000000000002'', role = ''user'',
           content = ''q1'', createdAt = 1\<rparr>,
         \<lparr>m_id = 1, sessionId = ''00000000000040008000000000000002'', role = ''assistant'',
           content = ''a1'', createdAt = 2\<rparr>,
         \<lparr>m_id = 2, sessionId = ''00000000000040008000000000000002'', role = ''user'',
           content = ''q2'', createdAt = 3\<rparr>,
         \<lparr>m_id = 3, sessionId = ''00000000000040008000000000000002'', role = ''assistant'',
           content = ''a2'', createdAt = 4\<rparr>,
         \<lparr>m_id = 4, sessionId = ''00000000000040008000000000000002'', role = ''user'',
           content = ''q3'', createdAt = 5\<rparr>,
         \<lparr>m_id = 5, sessionId = ''00000000000040008000000000000002'', role = ''assistant'',
           content = ''a3'', createdAt = 6\<rparr>,
         \<lparr>m_id = 6, sessionId = ''00000000000040008000000000000002'', role = ''user'',
           content = ''q4'', createdAt = 7\<rparr>,
         \<lparr>m_id = 7, sessionId = ''00000000000040008000000000000002'', role = ''assistant'',
           content = ''a4'', createdAt = 8\<rparr>]\<rparr>"



text \<open>A store holding one session with two rows that carry the same time stamp.\<close>

definition twin_db :: database where
  "twin_db =
     \<lparr>sessions = [\<lparr>s_id = ''00000000000040008000000000000002'', s_createdAt = 0\<rparr>],
      messages =
        [\<lparr>m_id = 0, sessionId = ''00000000000040008000000000000002'', role = ''user'',
           content = ''q1'', createdAt = 5\<rparr>,
         \<lparr>m_id = 1, sessionId = ''00000000000040008000000000000002'', role = ''assistant'',
           content = ''a1'', createdAt = 5\<rparr>]\<rparr>"

section \<open>Properties\<close>

subsection \<open>Substring search\<close>

lemma str_includes_iff: "str_includes s k \<longleftrightarrow> (\<exists>p q. s = p @ k @ q)"
proof (induction s)
  case Nil
  then show ?case by auto
next
  case (Cons c cs)
  show ?case
  proof
    assume "str_includes (c # cs) k"
    then consider "prefix k (c # cs)" | "str_includes cs k" by auto
    then show "\<exists>p q. c # cs = p @ k @ q"
    proof cases
      case 1
      then obtain q where "c # cs = k @ q" by (auto simp: prefix_def)
      then have "c # cs = [] @ k @ q" by simp
      then show ?thesis by blast
    next
      case 2
      with Cons.IH obtain p q where "cs = p @ k @ q" by blast
      then have "c # cs = (c # p) @ k @ q" by simp
      then show ?thesis by blast
    qed
  next
    assume "\<exists>p q. c # cs = p @ k @ q"
    then obtain p q where pq: "c # cs = p @ k @ q" by blast
    show "str_includes (c # cs) k"
    proof (cases p)
      case Nil
      with pq have "prefix k (c # cs)" by (simp add: prefix_def)
      then show ?thesis by simp
    next
      case (Cons a p')
      with pq have "cs = p' @ k @ q" by simp
      with Cons.IH have "str_includes cs k" by blast
      then show ?thesis by simp
    qed
  qed
qed

subsection \<open>The error mapping\<close>

lemmas text_defs = errorString_def errorStatus_def lower_ascii_def message_includes_def

lemma classify_full_spec: "classify_full error = snd (spec_classify error)"
  by (simp add: classify_full_def spec_classify_def spec_rules_def rule_applies_def)

text \<open>
  C4, amended. In the copy of the handler that carries the full table, a thrown value is
  answered with status 503 and the fixed configuration-error text exactly when its
  lower-cased message contains one of \<^verbatim>\<open>api_key\<close>, \<^verbatim>\<open>api key\<close>, \<^verbatim>\<open>invalid key\<close>,
  \<^verbatim>\<open>unauthorized\<close>, \<^verbatim>\<open>authentication\<close> or its status is 401 or 403, and the earlier rule
  for quota and billing (\<^verbatim>\<open>quota\<close>, \<^verbatim>\<open>exhausted\<close>, \<^verbatim>\<open>billing\<close>, \<^verbatim>\<open>insufficient\<close>, status
  402) does not apply to it; the category of the specification's table is then
  \<open>ConfigError\<close>.
\<close>

theorem classify_credentials:
  "(classify_full error = (503, ''Service configuration error. Please contact support.'')
      \<longleftrightarrow>
        (str_includes (errorString error) ''api_key''
         \<or> str_includes (errorString error) ''api key''
         \<or> str_includes (errorString error) ''invalid key''
         \<or> str_includes (errorString error) ''unauthorized''
         \<or> str_includes (errorString error) ''authentication''
         \<or> errorStatus error = Some 401 \<or> errorStatus error = Some 403)
        \<and> \<not> (str_includes (errorString error) ''quota''
             \<or> str_includes (errorString error) ''exhausted''
             \<or> str_includes (errorString error) ''billing''
             \<or> str_includes (errorString error) ''insufficient''
             \<or> errorStatus error = Some 402))
   \<and> (classify_full error = (503, ''Service configuration error. Please contact support.'')
        \<longleftrightarrow> fst (spec_classify error) = ConfigError)"
  by (simp add: classify_full_def spec_classify_def spec_rules_def rule_applies_def)

theorem classify_credentials_witness:
  "str_includes (errorString \<lparr>emessage = Some ''API key not valid. Please pass a valid API key.'',
       estatus = Some 400, ecode = None, estatusCode = None, estring = ''''\<rparr>) ''api key''
   \<and> classify_full \<lparr>emessage = Some ''API key not valid. Please pass a valid API key.'',
       estatus = Some 400, ecode = None, estatusCode = None, estring = ''''\<rparr>
       = (503, ''Service configuration error. Please contact support.'')
   \<and> fst (spec_classify \<lparr>emessage = Some ''API key not valid. Please pass a valid API key.'',
       estatus = Some 400, ecode = None, estatusCode = None, estring = ''''\<rparr>) = ConfigError"
proof -
  let ?e = "\<lparr>emessage = Some ''API key not valid. Please pass a valid API key.'',
       estatus = Some 400, ecode = None, estatusCode = None, estring = ''''\<rparr>"
  have s: "errorString ?e = ''api key not valid. please pass a valid api key.''"
    by (simp add: text_defs)
  have st: "errorStatus ?e = Some 400" by (simp add: text_defs)
  have h1: "str_includes (errorString ?e) ''api key''" unfolding s by simp
  have h2: "\<not> (str_includes (errorString ?e) ''quota''
             \<or> str_includes (errorString ?e) ''exhausted''
             \<or> str_includes (errorString ?e) ''billing''
             \<or> str_includes (errorString ?e) ''insufficient''
             \<or> errorStatus ?e = Some 402)"
    unfolding s st by simp
  from classify_credentials [of ?e] h1 h2 show ?thesis by blast
qed

text \<open>
  C4 as the specification words it fails in both copies of the handler: a thrown value
  with status 401 whose message says \<^verbatim>\<open>unauthorized\<close> and also names \<^verbatim>\<open>billing\<close> falls
  under the earlier rule of the full table and gets the unavailable text, not the
  configuration-error text; the catch block of the route gives it the generic answer
  with status 500.
\<close>

theorem classify_credentials_counterexample:
  "str_includes (errorString \<lparr>emessage = Some ''Unauthorized: billing account disabled'',
       estatus = Some 401, ecode = None, estatusCode = None, estring = ''''\<rparr>) ''unauthorized''
   \<and> errorStatus \<lparr>emessage = Some ''Unauthorized: billing account disabled'',
       estatus = Some 401, ecode = None, estatusCode = None, estring = ''''\<rparr> = Some 401
   \<and> spec_classify \<lparr>emessage = Some ''Unauthorized: billing account disabled'',
       estatus = Some 401, ecode = None, estatusCode = None, estring = ''''\<rparr>
       = (ServiceUnavailable, 503,
          ''Our AI service is temporarily unavailable. Please try again later.'')
   \<and> classify_full \<lparr>emessage = Some ''Unauthorized: billing account disabled'',
       estatus = Some 401, ecode = None, estatusCode = None, estring = ''''\<rparr>
       = (503, ''Our AI service is temporarily unavailable. Please try again later.'')
   \<and> classify \<lparr>emessage = Some ''Unauthorized: billing account disabled'',
       estatus = Some 401, ecode = None, estatusCode = None, estring = ''''\<rparr>
       = (500, ''An error occurred while processing your request.'')"
proof -
  let ?e = "\<lparr>emessage = Some ''Unauthorized: billing account disabled'',
       estatus = Some 401, ecode = None, estatusCode = None, estring = ''''\<rparr>"
  have s: "errorString ?e = ''unauthorized: billing account disabled''"
    by (simp add: text_defs)
  have st: "errorStatus ?e = Some 401" by (simp add: text_defs)
  have 1: "str_includes (errorString ?e) ''unauthorized''" unfolding s by simp
  have 2: "spec_classify ?e = (ServiceUnavailable, 503,
          ''Our AI service is temporarily unavailable. Please try again later.'')"
    unfolding spec_classify_def spec_rules_def by (simp add: rule_applies_def s st)
  have 3: "classify_full ?e
       = (503, ''Our AI service is temporarily unavailable. Please try again later.'')"
    unfolding classify_full_spec 2 by simp
  have 4: "classify ?e = (500, ''An error occurred while processing your request.'')"
    by (simp add: classify_def message_includes_def)
  from 1 st 2 3 4 show ?thesis by blast
qed

text \<open>
  C5, amended. In the copy of the handler that carries the full table, the answer is a
  function of the thrown value: the status and text of the first rule of the
  specification's seven-rule table that applies, keywords being looked for in the
  lower-cased message. In particular a thrown value whose message contains
  \<^verbatim>\<open>rate limit exceeded\<close> and to which neither of the two earlier rules applies is answered
  with status 429 and the fixed rate-limit text, in category \<open>RateLimited\<close>.
\<close>

theorem classify_first_match:
  "classify_full error = snd (first_match spec_rules error)
   \<and> (str_includes (errorString error) ''rate limit exceeded''
        \<and> \<not> (str_includes (errorString error) ''quota''
             \<or> str_includes (errorString error) ''exhausted''
             \<or> str_includes (errorString error) ''billing''
             \<or> str_includes (errorString error) ''insufficient''
             \<or> errorStatus error = Some 402)
        \<and> \<not> (str_includes (errorString error) ''api_key''
             \<or> str_includes (errorString error) ''api key''
             \<or> str_includes (errorString error) ''invalid key''
             \<or> str_includes (errorString error) ''unauthorized''
             \<or> str_includes (errorString error) ''authentication''
             \<or> errorStatus error = Some 401 \<or> errorStatus error = Some 403) \<longrightarrow>
        first_match spec_rules error
          = (RateLimited, 429, ''Too many requests. Please wait a moment and try again.'')
        \<and> classify_full error
          = (429, ''Too many requests. Please wait a moment and try again.''))"
proof -
  have a: "classify_full error = snd (first_match spec_rules error)"
    using classify_full_spec by (simp add: spec_classify_def)
  have b: "first_match spec_rules error
          = (RateLimited, 429, ''Too many requests. Please wait a moment and try again.'')"
    if inc: "str_includes (errorString error) ''rate limit exceeded''"
      and n0: "\<not> (str_includes (errorString error) ''quota''
             \<or> str_includes (errorString error) ''exhausted''
             \<or> str_includes (errorString error) ''billing''
             \<or> str_includes (errorString error) ''insufficient''
             \<or> errorStatus error = Some 402)"
      and n1: "\<not> (str_includes (errorString error) ''api_key''
             \<or> str_includes (errorString error) ''api key''
             \<or> str_includes (errorString error) ''invalid key''
             \<or> str_includes (errorString error) ''unauthorized''
             \<or> str_includes (errorString error) ''authentication''
             \<or> errorStatus error = Some 401 \<or> errorStatus error = Some 403)"
  proof -
    from inc obtain p q where "errorString error = p @ ''rate limit exceeded'' @ q"
      unfolding str_includes_iff by blast
    then have "errorString error = p @ ''rate'' @ ('' limit exceeded'' @ q)" by simp
    then have "str_includes (errorString error) ''rate''"
      unfolding str_includes_iff by blast
    with n0 n1 show ?thesis
      by (simp add: spec_rules_def rule_applies_def)
  qed
  from a b show ?thesis by simp
qed

theorem classify_first_match_witness:
  "str_includes (errorString \<lparr>emessage = Some ''Rate limit exceeded'', estatus = None,
       ecode = None, estatusCode = None, estring = ''''\<rparr>) ''rate limit exceeded''
   \<and> errorString \<lparr>emessage = Some ''Rate limit exceeded'', estatus = None,
       ecode = None, estatusCode = None, estring = ''''\<rparr> = ''rate limit exceeded''
   \<and> errorStatus \<lparr>emessage = Some ''Rate limit exceeded'', estatus = None,
       ecode = None, estatusCode = None, estring = ''''\<rparr> = None
   \<and> classify_full \<lparr>emessage = Some ''Rate limit exceeded'', estatus = None,
       ecode = None, estatusCode = None, estring = ''''\<rparr>
       = (429, ''Too many requests. Please wait a moment and try again.'')
   \<and> first_match spec_rules \<lparr>emessage = Some ''Rate limit exceeded'', estatus = None,
       ecode = None, estatusCode = None, estring = ''''\<rparr>
       = (RateLimited, 429, ''Too many requests. Please wait a moment and try again.'')"
proof -
  let ?e = "\<lparr>emessage = Some ''Rate limit exceeded'', estatus = None,
       ecode = None, estatusCode = None, estring = ''''\<rparr>"
  have s: "errorString ?e = ''rate limit exceeded''" by (simp add: text_defs)
  have st: "errorStatus ?e = None" by (simp add: text_defs)
  have h1: "str_includes (errorString ?e) ''rate limit exceeded''" unfolding s by simp
  have h2: "\<not> (str_includes (errorString ?e) ''quota''
             \<or> str_includes (errorString ?e) ''exhausted''
             \<or> str_includes (errorString ?e) ''billing''
             \<or> str_includes (errorString ?e) ''insufficient''
             \<or> errorStatus ?e = Some 402)"
    unfolding s st by simp
  have h3: "\<not> (str_includes (errorString ?e) ''api_key''
             \<or> str_includes (errorString ?e) ''api key''
             \<or> str_includes (errorString ?e) ''invalid key''
             \<or> str_includes (errorString ?e) ''unauthorized''
             \<or> str_includes (errorString ?e) ''authentication''
             \<or> errorStatus ?e = Some 401 \<or> errorStatus ?e = Some 403)"
    unfolding s st by simp
  from classify_first_match [of ?e] h1 h2 h3 s st show ?thesis by blast
qed

text \<open>
  C5 as the specification words it fails in both copies of the handler: the message of
  this thrown value contains \<^verbatim>\<open>rate limit exceeded\<close>, but it also names the \<^verbatim>\<open>quota\<close>, so
  the first rule of the full table decides and the answer is status 503; the catch block
  of the route, which looks for the upper-case token \<^verbatim>\<open>RATE_LIMIT\<close> only, gives the
  generic answer with status 500.
\<close>

theorem classify_rate_limit_counterexample:
  "str_includes ''rate limit exceeded: quota used up'' ''rate limit exceeded''
   \<and> spec_classify \<lparr>emessage = Some ''rate limit exceeded: quota used up'', estatus = None,
       ecode = None, estatusCode = None, estring = ''''\<rparr>
       = (ServiceUnavailable, 503,
          ''Our AI service is temporarily unavailable. Please try again later.'')
   \<and> classify_full \<lparr>emessage = Some ''rate limit exceeded: quota used up'', estatus = None,
       ecode = None, estatusCode = None, estring = ''''\<rparr>
       = (503, ''Our AI service is temporarily unavailable. Please try again later.'')
   \<and> classify \<lparr>emessage = Some ''rate limit exceeded: quota used up'', estatus = None,
       ecode = None, estatusCode = None, estring = ''''\<rparr>
       = (500, ''An error occurred while processing your request.'')"
proof -
  let ?e = "\<lparr>emessage = Some ''rate limit exceeded: quota used up'', estatus = None,
       ecode = None, estatusCode = None, estring = ''''\<rparr>"
  have s: "errorString ?e = ''rate limit exceeded: quota used up''" by (simp add: text_defs)
  have st: "errorStatus ?e = None" by (simp add: text_defs)
  have 1: "str_includes ''rate limit exceeded: quota used up'' ''rate limit exceeded''" by simp
  have 2: "spec_classify ?e = (ServiceUnavailable, 503,
          ''Our AI service is temporarily unavailable. Please try again later.'')"
    unfolding spec_classify_def spec_rules_def by (simp add: rule_applies_def s st)
  have 3: "classify_full ?e
       = (503, ''Our AI service is temporarily unavailable. Please try again later.'')"
    unfolding classify_full_spec 2 by simp
  have 4: "classify ?e = (500, ''An error occurred while processing your request.'')"
    by (simp add: classify_def message_includes_def)
  from 1 2 3 4 show ?thesis by blast
qed

subsection \<open>Reading and printing identifiers\<close>

lemma lower_hex_facts:
  assumes "is_lower_hex c"
  shows "is_xdigit c" "lower_ascii c = c" "c \<noteq> CHR ''-''" "c \<noteq> CHR ''{''"
proof -
  have "list_all (\<lambda>c. is_xdigit c \<and> lower_ascii c = c \<and> c \<noteq> CHR ''-'' \<and> c \<noteq> CHR ''{'')
          ''0123456789abcdef''"
    by code_simp
  with assms show "is_xdigit c" "lower_ascii c = c" "c \<noteq> CHR ''-''" "c \<noteq> CHR ''{''"
    unfolding list_all_iff is_lower_hex_def by blast+
qed

lemma print_hex_pairs_head:
  "list_all is_lower_hex digits \<Longrightarrow> take 1 (print_hex_pairs i digits) \<noteq> ''-''"
  by (cases "(i, digits)" rule: print_hex_pairs.cases) (auto dest: lower_hex_facts(3))

lemma parse_print_hex_pairs:
  "length digits = 2 * n \<Longrightarrow> list_all is_lower_hex digits \<Longrightarrow>
     parse_hex_pairs n i (print_hex_pairs i digits) = Some (digits, [])"
proof (induction n arbitrary: i digits)
  case 0
  then show ?case by simp
next
  case (Suc n)
  then obtain a b ds where d: "digits = a # b # ds"
    by (cases digits; cases "tl digits") auto
  with Suc.prems have ab: "is_lower_hex a" "is_lower_hex b"
    and ds: "length ds = 2 * n" "list_all is_lower_hex ds"
    by simp_all
  note IH = Suc.IH [OF ds, of "Suc i"]
  note hd = print_hex_pairs_head [OF ds(2), of "Suc i"]
  show ?case
  proof (cases "i \<in> {3, 5, 7, 9}")
    case True
    then have "odd i \<and> i < 15" by auto
    with True IH ab show ?thesis
      by (simp add: d lower_hex_facts)
  next
    case False
    with IH hd ab show ?thesis
      by (simp add: d lower_hex_facts)
  qed
qed

lemma hex_digits_wf: "length (hex_digits k x) = k \<and> list_all is_lower_hex (hex_digits k x)"
proof (induction k arbitrary: x)
  case 0
  then show ?case by simp
next
  case (Suc k)
  have "list_all (\<lambda>n. is_lower_hex (''0123456789abcdef'' ! n)) [0..<16]"
    by code_simp
  then have "is_lower_hex (''0123456789abcdef'' ! (x mod 16))"
    unfolding list_all_iff by simp
  with Suc show ?case by simp
qed

lemma string_to_uuid_out:
  "string_to_uuid (uuid_out (hex_digits 32 x)) = Some (hex_digits 32 x)"
proof -
  let ?v = "hex_digits 32 x"
  have l: "length ?v = 2 * 16" and a: "list_all is_lower_hex ?v"
    using hex_digits_wf [of 32 x] by simp_all
  from l obtain c cs where v: "?v = c # cs" by (cases ?v) auto
  with a have "is_lower_hex c" by simp
  then have "take 1 (uuid_out ?v) \<noteq> ''{''"
    unfolding uuid_out_def v
    by (cases "(0::nat, c # cs)" rule: print_hex_pairs.cases) (auto dest: lower_hex_facts(4))
  with parse_print_hex_pairs [OF l a, of 0] show ?thesis
    by (simp add: string_to_uuid_def uuid_out_def)
qed

subsection \<open>The calls of the store and the stages of a request\<close>


lemma POST_full_is: "POST_full = send_message classify_full"
  by (intro ext) (simp add: POST_full_def)


lemma insert_session_Inr:
  assumes "insert_session E site db given = Inr (db', row)"
  shows "fault E site = None
    \<and> (case given of
          None \<Rightarrow> s_id row = hex_digits 32 (random_uuid E)
        | Some g \<Rightarrow> string_to_uuid g = Some (s_id row))
    \<and> s_id row \<notin> set (map s_id (sessions db))
    \<and> s_createdAt row = now E site
    \<and> db' = db\<lparr>sessions := sessions db @ [row]\<rparr>"
  using assms
  by (auto simp: insert_session_def Let_def split: option.splits if_splits sum.splits)

lemma insert_session_drawn:
  assumes "insert_session E site db None = Inr (db', row)"
  shows "s_id row = hex_digits 32 (random_uuid E)"
    and "s_id row \<notin> set (map s_id (sessions db))"
    and "db' = db\<lparr>sessions := sessions db @ [row]\<rparr>"
  using insert_session_Inr [OF assms] by auto

lemma insert_session_given:
  assumes "insert_session E site db (Some g) = Inr (db', row)"
  shows "string_to_uuid g = Some (s_id row)"
    and "s_id row \<notin> set (map s_id (sessions db))"
    and "db' = db\<lparr>sessions := sessions db @ [row]\<rparr>"
  using insert_session_Inr [OF assms] by auto

lemma insert_message_Inr:
  assumes "insert_message E site db sid r c = Inr db'"
  shows "\<exists>v. fault E site = None \<and> string_to_uuid sid = Some v
           \<and> v \<in> set (map s_id (sessions db))
           \<and> db' = db\<lparr>messages := messages db @
                 [\<lparr>m_id = length (messages db), sessionId = v, role = r, content = c,
                   createdAt = now E site\<rparr>]\<rparr>"
  using assms
  by (auto simp: insert_message_def split: option.splits if_splits)

lemma select_session_Inr:
  assumes "select_session E site db i = Inr rows"
  shows "\<exists>v. fault E site = None \<and> string_to_uuid i = Some v
           \<and> rows = take 1 (filter (\<lambda>s. s_id s = v) (sessions db))
           \<and> (length rows = 0 \<longleftrightarrow> v \<notin> set (map s_id (sessions db)))"
  using assms
  by (auto simp: select_session_def filter_empty_conv split: option.splits if_splits)


text \<open>A resolved session: the text held in \<^verbatim>\<open>currentSessionId\<close> reads as the identifier of
  a session row of the store. Either nothing was written and the text is the one
  supplied, or one session row was written, under the identifier supplied or under the
  one drawn.\<close>

lemma resolve_session_Inr:
  assumes "resolve_session E db given = Inr (db1, sid)"
  shows "\<exists>v. string_to_uuid sid = Some v \<and>
           (db1 = db \<and> given = Some sid \<and> v \<in> set (map s_id (sessions db))
            \<or> (\<exists>row. s_id row = v \<and> v \<notin> set (map s_id (sessions db))
                  \<and> db1 = db\<lparr>sessions := sessions db @ [row]\<rparr>
                  \<and> (given = Some sid
                      \<or> v = hex_digits 32 (random_uuid E) \<and> sid = uuid_out v)))"
proof (cases "given = None \<or> given = Some []")
  case True
  with assms obtain row where m: "insert_session E MintSession db None = Inr (db1, row)"
    and s: "sid = uuid_out (s_id row)"
    by (auto simp: resolve_session_def split: sum.splits prod.splits)
  note v = insert_session_drawn(1) [OF m] and r = insert_session_drawn(2,3) [OF m]
  from s v have "string_to_uuid sid = Some (s_id row)"
    by (simp add: string_to_uuid_out)
  with s v r show ?thesis by blast
next
  case False
  then obtain i where i: "given = Some i" "i \<noteq> []" by (cases given) auto
  with assms obtain rows where rows: "select_session E FindSession db i = Inr rows"
    by (auto simp: resolve_session_def split: sum.splits)
  from select_session_Inr [OF rows] obtain v where v: "string_to_uuid i = Some v"
    and e: "length rows = 0 \<longleftrightarrow> v \<notin> set (map s_id (sessions db))"
    by blast
  show ?thesis
  proof (cases "length rows = 0")
    case False
    with assms i rows have eq: "db1 = db" "sid = i" by (auto simp: resolve_session_def)
    with False e v i show ?thesis by blast
  next
    case True
    show ?thesis
    proof (cases "insert_session E CreateSession db (Some i)")
      case (Inr p)
      then obtain db' row where p: "insert_session E CreateSession db (Some i) = Inr (db', row)"
        by (cases p) auto
      with assms i rows True have eq: "db1 = db'" "sid = i" by (auto simp: resolve_session_def)
      from insert_session_given [OF p] v have "s_id row = v"
        "v \<notin> set (map s_id (sessions db))" "db' = db\<lparr>sessions := sessions db @ [row]\<rparr>"
        by auto
      with eq v i show ?thesis by blast
    next
      case (Inl e)
      with assms i rows True obtain row where
        m: "insert_session E RemintSession db None = Inr (db1, row)"
        and s: "sid = uuid_out (s_id row)"
        by (auto simp: resolve_session_def split: sum.splits prod.splits)
      note w = insert_session_drawn(1) [OF m] and r = insert_session_drawn(2,3) [OF m]
      from s w have "string_to_uuid sid = Some (s_id row)"
        by (simp add: string_to_uuid_out)
      with s w r show ?thesis by blast
    qed
  qed
qed

lemma resolve_session_messages:
  "resolve_session E db given = Inr (db1, sid) \<Longrightarrow> messages db1 = messages db"
  by (drule resolve_session_Inr) auto

text \<open>The stages a request has passed when the language model is called.\<close>

lemma send_gateway_call:
  assumes "(history, current) \<in> set (gateway_calls (send_message c E db req))"
  shows "\<exists>db1 sid db2 fetched.
           req_message req = Some current \<and> current \<noteq> []
         \<and> resolve_session E db (req_sessionId req) = Inr (db1, sid)
         \<and> insert_message E AppendUser db1 sid ''user'' current = Inr db2
         \<and> select_recent E RecentMessages db2 sid 7 = Inr fetched
         \<and> history = build_history fetched current"
  using assms
  by (auto simp: send_message_def caught_def Let_def
      split: option.splits if_splits sum.splits prod.splits)


lemma send_gateway_failed:
  assumes "req_message req = Some current" "current \<noteq> []"
    and "resolve_session E db (req_sessionId req) = Inr (db1, sid)"
    and "insert_message E AppendUser db1 sid ''user'' current = Inr db2"
    and "select_recent E RecentMessages db2 sid 7 = Inr fetched"
    and "gateway E (build_history fetched current) current = Inl e"
  shows "send_message c E db req = caught c e db2 [(build_history fetched current, current)]"
  using assms by (simp add: send_message_def)

text \<open>The user's row of a request that reached the language model: it is the last row
  of the log when the call is made, under the identifier the resolved text reads as.\<close>

lemma user_row_appended:
  assumes "resolve_session E db given = Inr (db1, sid)"
    and "insert_message E AppendUser db1 sid ''user'' current = Inr db2"
  shows "\<exists>v row. string_to_uuid sid = Some v
           \<and> row = \<lparr>m_id = length (messages db), sessionId = v, role = ''user'',
                     content = current, createdAt = now E AppendUser\<rparr>
           \<and> messages db2 = messages db @ [row]
           \<and> sessions db2 = sessions db1
           \<and> v \<in> set (map s_id (sessions db2))"
proof -
  from insert_message_Inr [OF assms(2)] obtain v where
    v: "string_to_uuid sid = Some v" "v \<in> set (map s_id (sessions db1))"
      "db2 = db1\<lparr>messages := messages db1 @
                 [\<lparr>m_id = length (messages db1), sessionId = v, role = ''user'',
                   content = current, createdAt = now E AppendUser\<rparr>]\<rparr>"
    by blast
  from v(3) resolve_session_messages [OF assms(1)] have
    "messages db2 = messages db @ [\<lparr>m_id = length (messages db), sessionId = v, role = ''user'',
                     content = current, createdAt = now E AppendUser\<rparr>]"
    "sessions db2 = sessions db1"
    by simp_all
  with v(1,2) show ?thesis by simp
qed

subsection \<open>Evaluating the handlers\<close>

lemma uuid_samples:
  "string_to_uuid [] = None"
  "string_to_uuid ''not-a-uuid'' = None"
  "hex_digits 32 7 = ''00000000000000000000000000000007''"
  "uuid_out ''00000000000000000000000000000007'' = ''00000000-0000-0000-0000-000000000007''"
  "string_to_uuid ''00000000-0000-0000-0000-000000000007''
     = Some ''00000000000000000000000000000007''"
  "string_to_uuid ''00000000-0000-4000-8000-000000000002''
     = Some ''00000000000040008000000000000002''"
  "string_to_uuid ''00000000-0000-4000-8000-000000000003''
     = Some ''00000000000040008000000000000003''"
  "string_to_uuid ''{A0EEBC99-9C0B4EF8-BB6D6BB9-BD380A11}''
     = Some ''a0eebc999c0b4ef8bb6d6bb9bd380a11''"
  by code_simp+

lemmas run_defs =
  POST_def POST_full_def send_message_def caught_def classify_def message_includes_def
  resolve_session_def insert_session_def select_session_def insert_message_def
  select_recent_def select_history_def order_by_desc_def order_by_asc_def scanned_def
  build_history_def uuid_samples empty_db_def Let_def

lemma quota_error_answers:
  "classify quota_error = (429, ''Too many requests. Please wait a moment and try again.'')"
  "spec_classify quota_error
     = (ServiceUnavailable, 503,
        ''Our AI service is temporarily unavailable. Please try again later.'')"
  "classify_full quota_error
     = (503, ''Our AI service is temporarily unavailable. Please try again later.'')"
proof -
  have s: "errorString quota_error
             = ''[429 too many requests] resource has been exhausted (e.g. check quota).''"
    by (simp add: quota_error_def text_defs)
  show "classify quota_error = (429, ''Too many requests. Please wait a moment and try again.'')"
    by (simp add: classify_def quota_error_def message_includes_def)
  show 2: "spec_classify quota_error
     = (ServiceUnavailable, 503,
        ''Our AI service is temporarily unavailable. Please try again later.'')"
    unfolding spec_classify_def spec_rules_def by (simp add: rule_applies_def s)
  show "classify_full quota_error
     = (503, ''Our AI service is temporarily unavailable. Please try again later.'')"
    unfolding classify_full_spec 2 by simp
qed

lemma busy_run:
  "POST busy_env empty_db \<lparr>req_message = Some ''hi'', req_sessionId = None\<rparr> =
     \<lparr>response = \<lparr>status = 429,
         body = ErrorBody ''Too many requests. Please wait a moment and try again.''\<rparr>,
      store = \<lparr>sessions = [\<lparr>s_id = ''00000000000000000000000000000007'', s_createdAt = 100\<rparr>],
         messages = [\<lparr>m_id = 0, sessionId = ''00000000000000000000000000000007'',
                      role = ''user'', content = ''hi'', createdAt = 100\<rparr>]\<rparr>,
      gateway_calls = [([], ''hi'')]\<rparr>"
  by (simp add: POST_def send_message_def caught_def quota_error_answers resolve_session_def
      insert_session_def select_session_def insert_message_def select_recent_def
      order_by_desc_def scanned_def build_history_def uuid_samples empty_db_def Let_def
      busy_env_def)

lemma busy_run_full:
  "POST_full busy_env empty_db \<lparr>req_message = Some ''hi'', req_sessionId = None\<rparr> =
     \<lparr>response = \<lparr>status = 503,
         body = ErrorBody ''Our AI service is temporarily unavailable. Please try again later.''\<rparr>,
      store = \<lparr>sessions = [\<lparr>s_id = ''00000000000000000000000000000007'', s_createdAt = 100\<rparr>],
         messages = [\<lparr>m_id = 0, sessionId = ''00000000000000000000000000000007'',
                      role = ''user'', content = ''hi'', createdAt = 100\<rparr>]\<rparr>,
      gateway_calls = [([], ''hi'')]\<rparr>"
  by (simp add: POST_full_def send_message_def caught_def quota_error_answers resolve_session_def
      insert_session_def select_session_def insert_message_def select_recent_def
      order_by_desc_def scanned_def build_history_def uuid_samples empty_db_def Let_def
      busy_env_def)



subsection \<open>Validation of the message\<close>

text \<open>
  C7: a request whose message is absent or the empty text is answered with status 400
  and the text \<^verbatim>\<open>Message is required\<close>; the tables are left exactly as they were (no
  session row, no message row) and the language model is not called.
\<close>

theorem empty_message_rejected:
  "req_message req = None \<or> req_message req = Some [] \<Longrightarrow>
     POST E db req =
       \<lparr>response = \<lparr>status = 400, body = ErrorBody ''Message is required''\<rparr>,
        store = db, gateway_calls = []\<rparr>"
  by (auto simp: POST_def send_message_def)

theorem empty_message_rejected_witness:
  "POST quiet_env empty_db \<lparr>req_message = Some [], req_sessionId = None\<rparr> =
       \<lparr>response = \<lparr>status = 400, body = ErrorBody ''Message is required''\<rparr>,
        store = empty_db, gateway_calls = []\<rparr>
   \<and> sessions empty_db = [] \<and> messages empty_db = []"
proof -
  have "req_message \<lparr>req_message = Some [], req_sessionId = None\<rparr> = None
      \<or> req_message \<lparr>req_message = Some [], req_sessionId = None\<rparr> = Some []"
    by simp
  from empty_message_rejected [OF this, of quiet_env empty_db]
  show ?thesis by (simp add: empty_db_def)
qed

text \<open>The second copy of the handler does the same.\<close>

lemma second_copy_rejects_empty_message:
  "req_message req = None \<or> req_message req = Some [] \<Longrightarrow>
     POST_full E db req =
       \<lparr>response = \<lparr>status = 400, body = ErrorBody ''Message is required''\<rparr>,
        store = db, gateway_calls = []\<rparr>"
  by (auto simp: POST_full_def send_message_def)

subsection \<open>Resolving the session\<close>


lemma string_to_uuid_nonempty: "string_to_uuid i = Some v \<Longrightarrow> i \<noteq> []"
  using uuid_samples(1) by auto



lemma resolve_session_remint:
  assumes "string_to_uuid i = Some v" "fault E FindSession = None"
    "v \<notin> set (map s_id (sessions db))"
    "fault E CreateSession = Some e" "fault E RemintSession = None"
    "hex_digits 32 (random_uuid E) \<notin> set (map s_id (sessions db))"
  shows "resolve_session E db (Some i) =
           Inr (db\<lparr>sessions := sessions db @
                    [\<lparr>s_id = hex_digits 32 (random_uuid E), s_createdAt = now E RemintSession\<rparr>]\<rparr>,
                uuid_out (hex_digits 32 (random_uuid E)))"
proof -
  from assms(3) have "filter (\<lambda>s. s_id s = v) (sessions db) = []"
    by (auto simp: filter_empty_conv)
  with assms string_to_uuid_nonempty [OF assms(1)] show ?thesis
    by (simp add: resolve_session_def select_session_def insert_session_def Let_def)
qed

lemma resolve_session_malformed:
  assumes "i \<noteq> []" "string_to_uuid i = None" "fault E FindSession = None"
  shows "resolve_session E db (Some i) = Inl (invalid_uuid_error i)"
  using assms by (simp add: resolve_session_def select_session_def Let_def)

lemma resolve_session_lookup_throws:
  assumes "i \<noteq> []" "fault E FindSession = Some e"
  shows "resolve_session E db (Some i) = Inl e"
  using assms by (simp add: resolve_session_def select_session_def Let_def)

text \<open>
  C6: a request with a message and the forged identifier \<^verbatim>\<open>not-a-uuid\<close>, on an empty and
  reachable store. The lookup of line 45 throws before the guarded insert of line 49 is
  reached, the outer catch block answers with status 500, and no session is created:
  the request is failed because of the identifier it supplied.
\<close>

theorem forged_session_id_fails:
  "POST quiet_env empty_db \<lparr>req_message = Some ''hi'', req_sessionId = Some ''not-a-uuid''\<rparr>
     = \<lparr>response = \<lparr>status = 500,
                     body = ErrorBody ''An error occurred while processing your request.''\<rparr>,
        store = empty_db, gateway_calls = []\<rparr>"
  by (simp add: run_defs quiet_env_def invalid_uuid_error_def)

subsection \<open>Failure of the language model\<close>

text \<open>In either copy of the handler, when the call of the language model throws, the
  user's row appended before the call is still the last row of the log, and the response
  is what the copy's catch block makes of the thrown value.\<close>

lemma gateway_failure_persists:
  assumes "(history, current) \<in> set (gateway_calls (send_message c E db req))"
    and "gateway E history current = Inl e"
  shows "response (send_message c E db req) = \<lparr>status = fst (c e), body = ErrorBody (snd (c e))\<rparr>"
    and "\<exists>db1 sid v.
           resolve_session E db (req_sessionId req) = Inr (db1, sid)
         \<and> string_to_uuid sid = Some v
         \<and> messages (store (send_message c E db req)) = messages db @
              [\<lparr>m_id = length (messages db), sessionId = v, role = ''user'',
                content = current, createdAt = now E AppendUser\<rparr>]
         \<and> sessions (store (send_message c E db req)) = sessions db1
         \<and> v \<in> set (map s_id (sessions db1))"
proof -
  from send_gateway_call [OF assms(1)] obtain db1 sid db2 fetched where
    st: "req_message req = Some current" "current \<noteq> []"
      "resolve_session E db (req_sessionId req) = Inr (db1, sid)"
      "insert_message E AppendUser db1 sid ''user'' current = Inr db2"
      "select_recent E RecentMessages db2 sid 7 = Inr fetched"
      "history = build_history fetched current"
    by blast
  with assms(2) have "gateway E (build_history fetched current) current = Inl e" by simp
  from send_gateway_failed [OF st(1-5) this]
  have r: "send_message c E db req = caught c e db2 [(build_history fetched current, current)]" .
  show "response (send_message c E db req) = \<lparr>status = fst (c e), body = ErrorBody (snd (c e))\<rparr>"
    unfolding r by (simp add: caught_def split: prod.splits)
  have sto: "store (send_message c E db req) = db2"
    unfolding r by (simp add: caught_def split: prod.splits)
  from user_row_appended [OF st(3,4)] obtain v where
    "string_to_uuid sid = Some v"
    "messages db2 = messages db @
              [\<lparr>m_id = length (messages db), sessionId = v, role = ''user'',
                content = current, createdAt = now E AppendUser\<rparr>]"
    "sessions db2 = sessions db1" "v \<in> set (map s_id (sessions db2))"
    by blast
  with st(3) show "\<exists>db1 sid v.
           resolve_session E db (req_sessionId req) = Inr (db1, sid)
         \<and> string_to_uuid sid = Some v
         \<and> messages (store (send_message c E db req)) = messages db @
              [\<lparr>m_id = length (messages db), sessionId = v, role = ''user'',
                content = current, createdAt = now E AppendUser\<rparr>]
         \<and> sessions (store (send_message c E db req)) = sessions db1
         \<and> v \<in> set (map s_id (sessions db1))"
    unfolding sto by auto
qed

text \<open>In the copy with the full table that response is the answer of the specification's
  table.\<close>

lemma gateway_failure_full_answer:
  assumes "(history, current) \<in> set (gateway_calls (POST_full E db req))"
    and "gateway E history current = Inl e"
  shows "response (POST_full E db req) =
           \<lparr>status = fst (snd (spec_classify e)), body = ErrorBody (snd (snd (spec_classify e)))\<rparr>"
  using gateway_failure_persists(1) [of history current classify_full E db req e] assms
  by (simp add: POST_full_is classify_full_spec)

text \<open>
  C3: a request without identifier on an empty, reachable store, whose call of the
  language model throws the provider's answer to a used-up quota (status 429, the message
  naming the exhausted resource and the quota). The user's row stays in the log in both
  copies of the handler. The specification's table puts the thrown value in category
  \<open>ServiceUnavailable\<close> with status 503, and the copy with the full table answers so;
  the route answers with status 429 and the rate-limit text.
\<close>

theorem gateway_failure_route_answer:
  "gateway busy_env [] ''hi'' = Inl quota_error
   \<and> gateway_calls (POST busy_env empty_db \<lparr>req_message = Some ''hi'', req_sessionId = None\<rparr>)
       = [([], ''hi'')]
   \<and> messages (store (POST busy_env empty_db \<lparr>req_message = Some ''hi'', req_sessionId = None\<rparr>))
       = [\<lparr>m_id = 0, sessionId = ''00000000000000000000000000000007'', role = ''user'',
           content = ''hi'', createdAt = 100\<rparr>]
   \<and> spec_classify quota_error
       = (ServiceUnavailable, 503,
          ''Our AI service is temporarily unavailable. Please try again later.'')
   \<and> response (POST_full busy_env empty_db \<lparr>req_message = Some ''hi'', req_sessionId = None\<rparr>)
       = \<lparr>status = 503,
          body = ErrorBody ''Our AI service is temporarily unavailable. Please try again later.''\<rparr>
   \<and> response (POST busy_env empty_db \<lparr>req_message = Some ''hi'', req_sessionId = None\<rparr>)
       = \<lparr>status = 429,
          body = ErrorBody ''Too many requests. Please wait a moment and try again.''\<rparr>"
  by (simp add: busy_run busy_run_full quota_error_answers) (simp add: busy_env_def)



subsection \<open>What the validation lets through\<close>



lemma insert_session_succeeds:
  assumes "fault E site = None"
    and "given = None \<and> v = hex_digits 32 (random_uuid E) \<or> (\<exists>g. given = Some g \<and> string_to_uuid g = Some v)"
    and "v \<notin> set (map s_id (sessions db))"
  shows "\<exists>db' row. insert_session E site db given = Inr (db', row)"
  using assms by (auto simp: insert_session_def Let_def)





subsection \<open>The rows fetched for the context window\<close>

lemma scanned_mset: "mset (scanned E site rows) = mset rows"
  by (simp add: scanned_def)













subsection \<open>Fetching the history\<close>

lemma GET_absent:
  "given = None \<or> given = Some [] \<Longrightarrow>
     GET E db given = \<lparr>status = 400, body = ErrorBody ''Session ID is required''\<rparr>"
  by (auto simp: GET_def)

lemma GET_unknown:
  assumes "string_to_uuid sid = Some v" "fault E HistorySession = None"
    "v \<notin> set (map s_id (sessions db))"
  shows "GET E db (Some sid) = \<lparr>status = 200, body = MessagesBody []\<rparr>"
proof -
  from assms(3) have "filter (\<lambda>s. s_id s = v) (sessions db) = []"
    by (auto simp: filter_empty_conv)
  with assms(1,2) string_to_uuid_nonempty [OF assms(1)] show ?thesis
    by (simp add: GET_def select_session_def Let_def)
qed

lemma GET_known:
  assumes "string_to_uuid sid = Some v" "fault E HistorySession = None"
    "fault E HistoryMessages = None" "v \<in> set (map s_id (sessions db))"
  shows "GET E db (Some sid) =
           \<lparr>status = 200,
            body = MessagesBody (order_by_asc E HistoryMessages
                     (filter (\<lambda>m. sessionId m = v) (messages db)))\<rparr>"
proof -
  from assms(4) have "filter (\<lambda>s. s_id s = v) (sessions db) \<noteq> []"
    by (auto simp: filter_empty_conv)
  with assms(1,2,3) string_to_uuid_nonempty [OF assms(1)] show ?thesis
    by (simp add: GET_def select_session_def select_history_def Let_def min_def)
qed

text \<open>With pairwise distinct time stamps the two orders are each other's reverse,
  whatever order the rows are come across in.\<close>

lemma asc_is_rev_desc:
  assumes "distinct (map createdAt rows)"
  shows "order_by_asc E site rows = rev (order_by_desc E' site' rows)"
proof -
  let ?xs = "sort_key createdAt (scanned E site rows)"
  let ?S = "sort_key (\<lambda>m. - int (createdAt m)) (scanned E' site' rows)"
  have mx: "mset ?xs = mset rows" and mS: "mset ?S = mset rows"
    by (simp_all add: scanned_mset)
  then have sx: "set ?xs = set rows" and sS: "set ?S = set rows"
    by (metis set_mset_mset)+
  have "mset (map createdAt ?xs) = mset (map createdAt rows)"
    and "mset (map createdAt (rev ?S)) = mset (map createdAt rows)"
    using mx mS by (metis mset_map mset_rev)+
  with assms have dx: "distinct (map createdAt ?xs)" and dy: "distinct (map createdAt (rev ?S))"
    by (metis mset_eq_imp_distinct_iff)+
  have ox: "sorted (map createdAt ?xs)" by simp
  have "sorted (map (\<lambda>m. - int (createdAt m)) ?S)" by simp
  then have "sorted_wrt (\<lambda>a b. createdAt b \<le> createdAt a) ?S"
    by (simp add: sorted_map)
  then have "sorted_wrt (\<lambda>a b. createdAt a \<le> createdAt b) (rev ?S)"
    by (simp add: sorted_wrt_rev)
  then have oy: "sorted (map createdAt (rev ?S))"
    by (simp add: sorted_map)
  have "set (map createdAt ?xs) = set (map createdAt (rev ?S))"
    using sx sS by simp
  with ox dx oy dy have eq: "map createdAt ?xs = map createdAt (rev ?S)"
    by (rule sorted_distinct_set_unique)
  from assms have "inj_on createdAt (set rows)" by (simp add: distinct_map)
  then have "inj_on createdAt (set ?xs \<union> set (rev ?S))"
    using sx sS by simp
  with eq have "?xs = rev ?S" by (simp add: inj_on_map_eq_map)
  then show ?thesis by (simp add: order_by_asc_def order_by_desc_def)
qed

lemma recent_unlimited:
  assumes "distinct (map createdAt (filter (\<lambda>m. sessionId m = v) (messages db)))"
    "string_to_uuid sid = Some v" "fault E' RecentMessages = None"
    "length (filter (\<lambda>m. sessionId m = v) (messages db)) \<le> n"
  shows "select_recent E' RecentMessages db sid n
           = Inr (rev (order_by_asc E site (filter (\<lambda>m. sessionId m = v) (messages db))))"
proof -
  let ?rows = "filter (\<lambda>m. sessionId m = v) (messages db)"
  have "length (order_by_desc E' RecentMessages ?rows) = length ?rows"
    by (metis order_by_desc_def scanned_mset mset_sort size_mset)
  with assms(4) have "take n (order_by_desc E' RecentMessages ?rows)
      = order_by_desc E' RecentMessages ?rows"
    by simp
  with asc_is_rev_desc [OF assms(1), of E site E' RecentMessages] assms(2,3) show ?thesis
    by (simp add: select_recent_def)
qed

text \<open>
  C8, amended. Without a \<^verbatim>\<open>sessionId\<close> parameter (or with an empty one) the answer is
  status 400. For a text that reads as a uuid which no session row carries, with the
  store reachable, the answer is status 200 with an empty list. For a text that reads as
  the uuid of an existing session, with the store reachable, the answer is status 200
  with exactly the rows of that session, in non-decreasing order of time stamps; and when
  the time stamps of these rows are pairwise distinct, this list is the reverse of what
  the newest-first query returns when its limit is at least the number of rows.
\<close>

theorem fetch_history:
  "(given = None \<or> given = Some [] \<longrightarrow>
      GET E db given = \<lparr>status = 400, body = ErrorBody ''Session ID is required''\<rparr>)
   \<and> (string_to_uuid unknown = Some u \<and> fault E HistorySession = None
        \<and> u \<notin> set (map s_id (sessions db)) \<longrightarrow>
      GET E db (Some unknown) = \<lparr>status = 200, body = MessagesBody []\<rparr>)
   \<and> (string_to_uuid sid = Some v \<and> fault E HistorySession = None
        \<and> fault E HistoryMessages = None \<and> v \<in> set (map s_id (sessions db)) \<longrightarrow>
      (\<exists>history. GET E db (Some sid) = \<lparr>status = 200, body = MessagesBody history\<rparr>
         \<and> mset history = mset (filter (\<lambda>m. sessionId m = v) (messages db))
         \<and> sorted (map createdAt history)
         \<and> (distinct (map createdAt (filter (\<lambda>m. sessionId m = v) (messages db)))
              \<and> fault E' RecentMessages = None \<and> length history \<le> n \<longrightarrow>
               select_recent E' RecentMessages db sid n = Inr (rev history))))"
proof (intro conjI impI)
  assume "given = None \<or> given = Some []"
  then show "GET E db given = \<lparr>status = 400, body = ErrorBody ''Session ID is required''\<rparr>"
    by (rule GET_absent)
next
  assume "string_to_uuid unknown = Some u \<and> fault E HistorySession = None
        \<and> u \<notin> set (map s_id (sessions db))"
  then show "GET E db (Some unknown) = \<lparr>status = 200, body = MessagesBody []\<rparr>"
    using GET_unknown by blast
next
  assume a: "string_to_uuid sid = Some v \<and> fault E HistorySession = None
        \<and> fault E HistoryMessages = None \<and> v \<in> set (map s_id (sessions db))"
  let ?rows = "filter (\<lambda>m. sessionId m = v) (messages db)"
  let ?h = "order_by_asc E HistoryMessages ?rows"
  have 1: "GET E db (Some sid) = \<lparr>status = 200, body = MessagesBody ?h\<rparr>"
    using a GET_known by blast
  have 2: "mset ?h = mset ?rows"
    by (simp add: order_by_asc_def scanned_mset)
  then have len: "length ?h = length ?rows" by (metis size_mset)
  have 3: "sorted (map createdAt ?h)"
    by (simp add: order_by_asc_def)
  have 4: "distinct (map createdAt ?rows) \<and> fault E' RecentMessages = None \<and> length ?h \<le> n \<longrightarrow>
               select_recent E' RecentMessages db sid n = Inr (rev ?h)"
    using a recent_unlimited [of v db sid E' n E HistoryMessages] len by simp
  from 1 2 3 4
  show "\<exists>history. GET E db (Some sid) = \<lparr>status = 200, body = MessagesBody history\<rparr>
         \<and> mset history = mset ?rows
         \<and> sorted (map createdAt history)
         \<and> (distinct (map createdAt ?rows)
              \<and> fault E' RecentMessages = None \<and> length history \<le> n \<longrightarrow>
               select_recent E' RecentMessages db sid n = Inr (rev history))"
    by blast
qed

theorem fetch_history_witness:
  "GET quiet_env seeded_db None = \<lparr>status = 400, body = ErrorBody ''Session ID is required''\<rparr>
   \<and> string_to_uuid ''{A0EEBC99-9C0B4EF8-BB6D6BB9-BD380A11}'' = Some ''a0eebc999c0b4ef8bb6d6bb9bd380a11''
   \<and> ''a0eebc999c0b4ef8bb6d6bb9bd380a11'' \<notin> set (map s_id (sessions seeded_db))
   \<and> GET quiet_env seeded_db (Some ''{A0EEBC99-9C0B4EF8-BB6D6BB9-BD380A11}'')
        = \<lparr>status = 200, body = MessagesBody []\<rparr>
   \<and> string_to_uuid ''00000000-0000-4000-8000-000000000002''
        = Some ''00000000000040008000000000000002''
   \<and> ''00000000000040008000000000000002'' \<in> set (map s_id (sessions seeded_db))
   \<and> distinct (map createdAt
        (filter (\<lambda>m. sessionId m = ''00000000000040008000000000000002'') (messages seeded_db)))
   \<and> (\<exists>history.
         GET quiet_env seeded_db (Some ''00000000-0000-4000-8000-000000000002'')
           = \<lparr>status = 200, body = MessagesBody history\<rparr>
       \<and> length history = 8
       \<and> sorted (map createdAt history)
       \<and> select_recent quiet_env RecentMessages seeded_db ''00000000-0000-4000-8000-000000000002'' 8
           = Inr (rev history))"
proof -
  let ?ut = "''{A0EEBC99-9C0B4EF8-BB6D6BB9-BD380A11}''"
  let ?u = "''a0eebc999c0b4ef8bb6d6bb9bd380a11''"
  let ?kt = "''00000000-0000-4000-8000-000000000002''"
  let ?k = "''00000000000040008000000000000002''"
  let ?rows = "filter (\<lambda>m. sessionId m = ?k) (messages seeded_db)"
  have u: "string_to_uuid ?ut = Some ?u" "?u \<notin> set (map s_id (sessions seeded_db))"
    by (simp_all add: uuid_samples seeded_db_def)
  have k: "string_to_uuid ?kt = Some ?k" "?k \<in> set (map s_id (sessions seeded_db))"
    by (simp_all add: uuid_samples seeded_db_def)
  have f: "fault quiet_env HistorySession = None" "fault quiet_env HistoryMessages = None"
    "fault quiet_env RecentMessages = None"
    by (simp_all add: quiet_env_def)
  have d: "distinct (map createdAt ?rows)" and n: "length ?rows = 8"
    by (simp_all add: seeded_db_def)
  note t = fetch_history [where given = None and E = quiet_env and db = seeded_db
      and unknown = ?ut and u = ?u and sid = ?kt and v = ?k and E' = quiet_env and n = 8]
  from t have 1: "GET quiet_env seeded_db None
        = \<lparr>status = 400, body = ErrorBody ''Session ID is required''\<rparr>"
    by blast
  from t u f have 2: "GET quiet_env seeded_db (Some ?ut) = \<lparr>status = 200, body = MessagesBody []\<rparr>"
    by blast
  from t k f obtain history where
    h: "GET quiet_env seeded_db (Some ?kt) = \<lparr>status = 200, body = MessagesBody history\<rparr>"
      "mset history = mset ?rows"
      "sorted (map createdAt history)"
      "distinct (map createdAt ?rows) \<and> fault quiet_env RecentMessages = None \<and> length history \<le> 8 \<longrightarrow>
         select_recent quiet_env RecentMessages seeded_db ?kt 8 = Inr (rev history)"
    by blast
  from h(2) n have l: "length history = 8" by (metis size_mset)
  with h(4) d f(3)
  have "select_recent quiet_env RecentMessages seeded_db ?kt 8 = Inr (rev history)" by simp
  with h(1,3) l have "\<exists>history.
         GET quiet_env seeded_db (Some ?kt) = \<lparr>status = 200, body = MessagesBody history\<rparr>
       \<and> length history = 8
       \<and> sorted (map createdAt history)
       \<and> select_recent quiet_env RecentMessages seeded_db ?kt 8 = Inr (rev history)"
    by blast
  with 1 2 u k d show ?thesis by blast
qed

text \<open>
  C8 as the specification words it fails twice. An identifier that is not in the store
  because it does not read as a uuid at all makes the lookup throw, and the catch block
  of \<^verbatim>\<open>GET\<close> answers with status 500. And for a session whose two rows carry the same time
  stamp, both queries can return the rows in the same order, so that the history is not
  the reverse of the newest-first view.
\<close>

theorem fetch_history_counterexample:
  "string_to_uuid ''not-a-uuid'' = None
   \<and> GET quiet_env empty_db (Some ''not-a-uuid'')
       = \<lparr>status = 500, body = ErrorBody ''Failed to fetch chat history.''\<rparr>
   \<and> GET quiet_env twin_db (Some ''00000000-0000-4000-8000-000000000002'')
       = \<lparr>status = 200, body = MessagesBody (messages twin_db)\<rparr>
   \<and> select_recent quiet_env RecentMessages twin_db ''00000000-0000-4000-8000-000000000002'' 7
       = Inr (messages twin_db)
   \<and> rev (messages twin_db) \<noteq> messages twin_db"
  by (simp add: GET_def select_session_def select_history_def select_recent_def
      order_by_asc_def order_by_desc_def scanned_def uuid_samples quiet_env_def empty_db_def
      twin_db_def Let_def)


end
